theory Spec2Isabelle
  imports Main "HOL-Library.Multiset" "HOL-Library.Monad_Syntax" "HOL-Library.Product_Lexorder"
begin

section \<open>Data model of the questions slice\<close>

text \<open>
  The interfaces \<open>Question\<close>, \<open>Response\<close> and \<open>QuestionsState\<close> of the slice.
  Identifiers and counters are JavaScript numbers that hold integers; they are modelled
  as \<open>int\<close>, and the addition on them rounds as the addition of doubles does
  (\<open>jsAdd\<close> below). Nullable strings are options. The fields of
  \<open>Response\<close> that share a name with a field of \<open>Question\<close> carry the suffix \<open>_r\<close>.
\<close>

record Question =
  question_id :: int
  message :: string
  status :: string
  created_at :: string
  guest_name :: "string option"
  username :: "string option"
  response_count :: int

record Response =
  response_id :: int
  question_id_r :: int
  message_r :: string
  created_at_r :: string
  guest_name_r :: "string option"
  username_r :: "string option"

record QuestionsState =
  questions :: "Question list"
  selectedQuestion :: "Question option"
  responses :: "Response list"
  loading :: bool
  error :: "string option"

definition initialState :: QuestionsState where
  "initialState =
     \<lparr>questions = [], selectedQuestion = None, responses = [], loading = False, error = None\<rparr>"

section \<open>Addition of JavaScript numbers\<close>

text \<open>
  A JavaScript number is an IEEE double. Every integer of magnitude up to \<open>2^53\<close> is a
  double; beyond, a double has 53 significant bits. \<open>roundToDouble\<close> rounds an
  integer to the nearest double, a tie to the one with the even significand.
  \<open>bitLength n\<close> is the number of binary digits of \<open>n\<close>. Magnitudes beyond the
  largest finite double (about \<open>1.8e308\<close>) are not modelled.
\<close>

fun bitLength :: "nat \<Rightarrow> nat" where
  "bitLength n = (if n = 0 then 0 else Suc (bitLength (n div 2)))"

declare bitLength.simps [simp del]

definition roundToDouble :: "int \<Rightarrow> int" where
  "roundToDouble n =
     (if \<bar>n\<bar> \<le> 2 ^ 53 then n
      else let u = 2 ^ (bitLength (nat \<bar>n\<bar>) - 53);
               q = \<bar>n\<bar> div u;
               r = \<bar>n\<bar> mod u;
               m = (if 2 * r < u \<or> (2 * r = u \<and> even q) then q else q + 1) * u
           in if n < 0 then - m else m)"

text \<open>\<open>a + b\<close> on two numbers that hold integers: the exact sum, rounded.\<close>

definition jsAdd :: "int \<Rightarrow> int \<Rightarrow> int" where
  "jsAdd a b = roundToDouble (a + b)"

text \<open>\<open>Number.isSafeInteger\<close>: the magnitude is at most \<open>2^53 - 1\<close>.\<close>

definition isSafeInteger :: "int \<Rightarrow> bool" where
  "isSafeInteger n = (\<bar>n\<bar> < 2 ^ 53)"

section \<open>Sorting\<close>

text \<open>
  A JavaScript number that is either an integer or \<open>NaN\<close>: \<open>None\<close> is \<open>NaN\<close>.
  Subtraction with a \<open>NaN\<close> (or \<open>undefined\<close>) operand is \<open>NaN\<close>.
\<close>

type_synonym number = "int option"

fun num_sub :: "number \<Rightarrow> number \<Rightarrow> number" where
  "num_sub (Some a) (Some b) = Some (a - b)"
| "num_sub _ _ = None"

text \<open>
  \<open>new Date(s).getTime()\<close> belongs to the platform, not to the repository: it is a
  parameter of the model, of this type. \<open>None\<close> is the \<open>NaN\<close> of an invalid date,
  \<open>Some t\<close> the milliseconds since the epoch.
\<close>

type_synonym dateParser = "string \<Rightarrow> number"

text \<open>
  The object literal \<open>statusPriority\<close>. A key that is not one of the three has no
  numeric value (\<open>undefined\<close>, or an inherited member of \<open>Object.prototype\<close>), and the
  subtraction then gives \<open>NaN\<close>.
\<close>

definition statusPriority :: "string \<Rightarrow> number" where
  "statusPriority = map_of [(''Escalated'', 0), (''Pending'', 1), (''Answered'', 2)]"

text \<open>The comparator handed to \<open>sort\<close> in \<open>sortQuestions\<close>.\<close>

definition compareQuestions :: "dateParser \<Rightarrow> Question \<Rightarrow> Question \<Rightarrow> number" where
  "compareQuestions getTime a b =
     (let statusDiff = num_sub (statusPriority (status a)) (statusPriority (status b))
      in if statusDiff \<noteq> Some 0 then statusDiff
         else num_sub (getTime (created_at b)) (getTime (created_at a)))"

text \<open>
  \<open>Array.prototype.sort\<close> with a comparator: stable, a \<open>NaN\<close> result counts as \<open>0\<close>,
  and \<open>a\<close> is moved behind \<open>b\<close> only when the comparator is positive on \<open>(a, b)\<close>.
  Only the sign of the comparator's result is used, and rounding a difference to a
  double keeps its sign (\<open>roundToDouble_sign\<close>), so \<open>num_sub\<close> may subtract exactly.
  It is modelled as the stable insertion sort. For a consistent comparator every stable
  sort returns this list; for an inconsistent one (a \<open>NaN\<close> result among others)
  ECMAScript leaves the order to the implementation, and no theorem below speaks of
  that case.
\<close>

definition positive :: "number \<Rightarrow> bool" where
  "positive v = (case v of None \<Rightarrow> False | Some n \<Rightarrow> 0 < n)"

fun insertSorted :: "('a \<Rightarrow> 'a \<Rightarrow> number) \<Rightarrow> 'a \<Rightarrow> 'a list \<Rightarrow> 'a list" where
  "insertSorted cmp x [] = [x]"
| "insertSorted cmp x (y # ys) =
     (if positive (cmp x y) then y # insertSorted cmp x ys else x # y # ys)"

fun arraySort :: "('a \<Rightarrow> 'a \<Rightarrow> number) \<Rightarrow> 'a list \<Rightarrow> 'a list" where
  "arraySort cmp [] = []"
| "arraySort cmp (x # xs) = insertSorted cmp x (arraySort cmp xs)"

definition sortQuestions :: "dateParser \<Rightarrow> Question list \<Rightarrow> Question list" where
  "sortQuestions getTime qs = arraySort (compareQuestions getTime) qs"

section \<open>Reducers\<close>

definition addQuestion :: "dateParser \<Rightarrow> QuestionsState \<Rightarrow> Question \<Rightarrow> QuestionsState" where
  "addQuestion getTime state payload =
     state\<lparr>questions := sortQuestions getTime (payload # questions state)\<rparr>"

text \<open>\<open>findIndex\<close>: the first index whose element satisfies the predicate, \<open>None\<close> for \<open>-1\<close>.\<close>

fun findIndex :: "('a \<Rightarrow> bool) \<Rightarrow> 'a list \<Rightarrow> nat option" where
  "findIndex p [] = None"
| "findIndex p (x # xs) =
     (if p x then Some 0 else map_option Suc (findIndex p xs))"

text \<open>\<open>state.selectedQuestion?.question_id === id\<close>: false when nothing is selected.\<close>

definition selectedHasId :: "QuestionsState \<Rightarrow> int \<Rightarrow> bool" where
  "selectedHasId state i =
     (case selectedQuestion state of None \<Rightarrow> False | Some sel \<Rightarrow> question_id sel = i)"

definition updateQuestion :: "dateParser \<Rightarrow> QuestionsState \<Rightarrow> Question \<Rightarrow> QuestionsState" where
  "updateQuestion getTime state payload =
     (let state1 =
        (case findIndex (\<lambda>q. question_id q = question_id payload) (questions state) of
           None \<Rightarrow> state
         | Some index \<Rightarrow>
             state\<lparr>questions := sortQuestions getTime ((questions state)[index := payload])\<rparr>)
      in if selectedHasId state1 (question_id payload)
         then state1\<lparr>selectedQuestion := Some payload\<rparr>
         else state1)"

text \<open>
  \<open>find\<close> followed by the in-place \<open>response_count += 1\<close>: the first Question with the
  identifier is the one that is changed, and the addition is the addition of doubles.
\<close>

fun bumpFirst :: "int \<Rightarrow> Question list \<Rightarrow> Question list" where
  "bumpFirst i [] = []"
| "bumpFirst i (q # qs) =
     (if question_id q = i then q\<lparr>response_count := jsAdd (response_count q) 1\<rparr> # qs
      else q # bumpFirst i qs)"

definition addResponse :: "QuestionsState \<Rightarrow> Response \<Rightarrow> QuestionsState" where
  "addResponse state payload =
     state\<lparr>responses := responses state @ [payload],
           questions := bumpFirst (question_id_r payload) (questions state)\<rparr>"

definition setSelectedQuestion :: "QuestionsState \<Rightarrow> Question option \<Rightarrow> QuestionsState" where
  "setSelectedQuestion state payload = state\<lparr>selectedQuestion := payload\<rparr>"

definition clearError :: "QuestionsState \<Rightarrow> QuestionsState" where
  "clearError state = state\<lparr>error := None\<rparr>"

subsection \<open>The extra reducers of the five thunks\<close>

text \<open>
  The \<open>pending\<close> and \<open>rejected\<close> cases have the same body for every thunk. A
  \<open>fulfilled\<close> case receives the server's answer as its payload; the two creation thunks
  and the status update ignore it.
\<close>

definition pending :: "QuestionsState \<Rightarrow> QuestionsState" where
  "pending state = state\<lparr>loading := True, error := None\<rparr>"

definition rejected :: "QuestionsState \<Rightarrow> string \<Rightarrow> QuestionsState" where
  "rejected state payload = state\<lparr>loading := False, error := Some payload\<rparr>"

definition fetchQuestions_fulfilled ::
  "dateParser \<Rightarrow> QuestionsState \<Rightarrow> Question list \<Rightarrow> QuestionsState" where
  "fetchQuestions_fulfilled getTime state payload =
     state\<lparr>loading := False, questions := sortQuestions getTime payload\<rparr>"

definition createQuestion_fulfilled :: "QuestionsState \<Rightarrow> Question \<Rightarrow> QuestionsState" where
  "createQuestion_fulfilled state payload = state\<lparr>loading := False\<rparr>"

definition updateQuestionStatus_fulfilled :: "QuestionsState \<Rightarrow> Question \<Rightarrow> QuestionsState" where
  "updateQuestionStatus_fulfilled state payload = state\<lparr>loading := False\<rparr>"

definition fetchResponses_fulfilled :: "QuestionsState \<Rightarrow> Response list \<Rightarrow> QuestionsState" where
  "fetchResponses_fulfilled state payload = state\<lparr>loading := False, responses := payload\<rparr>"

definition createResponse_fulfilled :: "QuestionsState \<Rightarrow> Response \<Rightarrow> QuestionsState" where
  "createResponse_fulfilled state payload = state\<lparr>loading := False\<rparr>"

subsection \<open>The slice reducer\<close>

datatype thunk = FetchQuestions | CreateQuestion | UpdateQuestionStatus | FetchResponses | CreateResponse

datatype action =
    AddQuestion Question
  | UpdateQuestion Question
  | AddResponse Response
  | SetSelectedQuestion "Question option"
  | ClearError
  | Pending thunk
  | Rejected thunk string
  | FetchQuestionsFulfilled "Question list"
  | CreateQuestionFulfilled Question
  | UpdateQuestionStatusFulfilled Question
  | FetchResponsesFulfilled "Response list"
  | CreateResponseFulfilled Response

fun questionsReducer :: "dateParser \<Rightarrow> QuestionsState \<Rightarrow> action \<Rightarrow> QuestionsState" where
  "questionsReducer getTime state (AddQuestion q) = addQuestion getTime state q"
| "questionsReducer getTime state (UpdateQuestion q) = updateQuestion getTime state q"
| "questionsReducer getTime state (AddResponse r) = addResponse state r"
| "questionsReducer getTime state (SetSelectedQuestion sel) = setSelectedQuestion state sel"
| "questionsReducer getTime state ClearError = clearError state"
| "questionsReducer getTime state (Pending t) = pending state"
| "questionsReducer getTime state (Rejected t msg) = rejected state msg"
| "questionsReducer getTime state (FetchQuestionsFulfilled qs) =
     fetchQuestions_fulfilled getTime state qs"
| "questionsReducer getTime state (CreateQuestionFulfilled q) = createQuestion_fulfilled state q"
| "questionsReducer getTime state (UpdateQuestionStatusFulfilled q) =
     updateQuestionStatus_fulfilled state q"
| "questionsReducer getTime state (FetchResponsesFulfilled rs) = fetchResponses_fulfilled state rs"
| "questionsReducer getTime state (CreateResponseFulfilled r) = createResponse_fulfilled state r"

section \<open>Message router (the onmessage handler of useWebSocket)\<close>

text \<open>
  The value that \<open>JSON.parse\<close> returns. Numbers are restricted to the integers that the
  two interfaces use; the pairs of an object are its own properties.
\<close>

datatype json =
    JNull
  | JBool bool
  | JNum int
  | JStr string
  | JArr "json list"
  | JObj "(string \<times> json) list"

datatype jsError = SyntaxError | TypeError

text \<open>
  Reading a property: \<open>null\<close> throws a \<open>TypeError\<close>, an object gives the value or
  \<open>undefined\<close> (\<open>None\<close>), every other value gives \<open>undefined\<close>.
\<close>

fun getProp :: "json \<Rightarrow> string \<Rightarrow> jsError + json option" where
  "getProp JNull k = Inl TypeError"
| "getProp (JObj props) k = Inr (map_of props k)"
| "getProp v k = Inr None"

text \<open>
  \<open>message.data\<close> is handed to the action creators unchecked, at the type the action
  declares. \<open>asQuestion\<close> and \<open>asResponse\<close> read a value at that type; they give
  \<open>None\<close> for a value that does not have the interface.
\<close>

definition numField :: "(string \<times> json) list \<Rightarrow> string \<Rightarrow> int option" where
  "numField props k = (case map_of props k of Some (JNum n) \<Rightarrow> Some n | _ \<Rightarrow> None)"

definition strField :: "(string \<times> json) list \<Rightarrow> string \<Rightarrow> string option" where
  "strField props k = (case map_of props k of Some (JStr s) \<Rightarrow> Some s | _ \<Rightarrow> None)"

definition nullableField :: "(string \<times> json) list \<Rightarrow> string \<Rightarrow> string option option" where
  "nullableField props k =
     (case map_of props k of
        Some JNull \<Rightarrow> Some None
      | Some (JStr s) \<Rightarrow> Some (Some s)
      | _ \<Rightarrow> None)"

definition asQuestion :: "json option \<Rightarrow> Question option" where
  "asQuestion v =
     (case v of
        Some (JObj props) \<Rightarrow>
          do {
            i \<leftarrow> numField props ''question_id'';
            m \<leftarrow> strField props ''message'';
            s \<leftarrow> strField props ''status'';
            c \<leftarrow> strField props ''created_at'';
            g \<leftarrow> nullableField props ''guest_name'';
            u \<leftarrow> nullableField props ''username'';
            n \<leftarrow> numField props ''response_count'';
            Some \<lparr>question_id = i, message = m, status = s, created_at = c, guest_name = g,
                   username = u, response_count = n\<rparr>
          }
      | _ \<Rightarrow> None)"

definition asResponse :: "json option \<Rightarrow> Response option" where
  "asResponse v =
     (case v of
        Some (JObj props) \<Rightarrow>
          do {
            i \<leftarrow> numField props ''response_id'';
            q \<leftarrow> numField props ''question_id'';
            m \<leftarrow> strField props ''message'';
            c \<leftarrow> strField props ''created_at'';
            g \<leftarrow> nullableField props ''guest_name'';
            u \<leftarrow> nullableField props ''username'';
            Some \<lparr>response_id = i, question_id_r = q, message_r = m, created_at_r = c,
                   guest_name_r = g, username_r = u\<rparr>
          }
      | _ \<Rightarrow> None)"

text \<open>
  What the handler writes to the console, and its outcome. \<open>Handled\<close> is a normal
  return with the Store after the dispatch. \<open>Untyped\<close> stands for a recognised message
  whose \<open>data\<close> does not have the declared interface: the typed Store cannot hold it,
  and the model says nothing about that case.
\<close>

datatype logEntry =
    MessageReceived json
  | UnknownMessageType "json option"
  | ParsingError jsError

datatype outcome =
    Handled (store: QuestionsState) (logged: "logEntry list")
  | Untyped

definition dispatch ::
  "logEntry list \<Rightarrow> ('a \<Rightarrow> QuestionsState) \<Rightarrow> 'a option \<Rightarrow> outcome" where
  "dispatch log reducer payload =
     (case payload of None \<Rightarrow> Untyped | Some p \<Rightarrow> Handled (reducer p) log)"

text \<open>
  \<open>ws.onmessage\<close>. The argument \<open>parsed\<close> is the outcome of
  \<open>JSON.parse(event.data)\<close>, \<open>None\<close> when it throws a \<open>SyntaxError\<close>. The \<open>catch\<close>
  block turns every exception of the \<open>try\<close> block into one \<open>ParsingError\<close> line, so
  the handler always returns.
\<close>

definition onmessage :: "dateParser \<Rightarrow> QuestionsState \<Rightarrow> json option \<Rightarrow> outcome" where
  "onmessage getTime state parsed =
     (case parsed of
        None \<Rightarrow> Handled state [ParsingError SyntaxError]
      | Some msg \<Rightarrow>
          (case getProp msg ''type'' of
             Inl e \<Rightarrow> Handled state [MessageReceived msg, ParsingError e]
           | Inr ty \<Rightarrow>
               (let data = (case getProp msg ''data'' of Inl e \<Rightarrow> None | Inr d \<Rightarrow> d)
                in if ty = Some (JStr ''new_question'') then
                     dispatch [MessageReceived msg] (addQuestion getTime state) (asQuestion data)
                   else if ty = Some (JStr ''question_updated'') then
                     dispatch [MessageReceived msg] (updateQuestion getTime state)
                       (asQuestion data)
                   else if ty = Some (JStr ''new_response'') then
                     dispatch [MessageReceived msg] (addResponse state) (asResponse data)
                   else Handled state [MessageReceived msg, UnknownMessageType ty])))"

section \<open>Connection manager (useWebSocket)\<close>

text \<open>
  What \<open>connect\<close> reads from outside: the environment variable, \<open>window.location.protocol\<close>
  (\<open>None\<close> when \<open>window\<close> is undefined), and whether \<open>new WebSocket(WS_URL)\<close> throws.
\<close>

record Env =
  NEXT_PUBLIC_API_URL :: "string option"
  locationProtocol :: "string option"
  constructorThrows :: bool

text \<open>
  \<open>apiUrl\<close> is \<open>process.env.NEXT_PUBLIC_API_URL || 'http://localhost:8000'\<close> (an empty
  string is falsy). \<open>getWebSocketURL\<close> replaces a leading \<open>https\<close> or \<open>http\<close>
  (the regular expression \<open>^https?\<close>) by the WebSocket scheme and appends \<open>/ws\<close>.
\<close>

definition startsWith :: "string \<Rightarrow> string \<Rightarrow> bool" where
  "startsWith s p = (take (length p) s = p)"

definition apiUrl :: "Env \<Rightarrow> string" where
  "apiUrl env =
     (case NEXT_PUBLIC_API_URL env of
        None \<Rightarrow> ''http://localhost:8000''
      | Some u \<Rightarrow> if u = [] then ''http://localhost:8000'' else u)"

definition isPageHttps :: "Env \<Rightarrow> bool" where
  "isPageHttps env = (locationProtocol env = Some ''https:'')"

definition isApiHttp :: "Env \<Rightarrow> bool" where
  "isApiHttp env = startsWith (apiUrl env) ''http://''"

definition getWebSocketURL :: "Env \<Rightarrow> string" where
  "getWebSocketURL env =
     (let protocol = (if isPageHttps env then ''wss'' else ''ws'');
          url = apiUrl env
      in (if startsWith url ''https'' then protocol @ drop 5 url
          else if startsWith url ''http'' then protocol @ drop 4 url
          else url) @ ''/ws'')"

definition RECONNECT_DELAY :: nat where
  "RECONNECT_DELAY = 3000"

text \<open>
  The state of the hook: its three refs, every WebSocket created so far with its URL and
  ready state (\<open>wsRef\<close> holds an index into them), the pending timeouts with their
  delays, the next timer handle, and the console. Handles start at 1, so a stored handle
  is always truthy.
\<close>

datatype readyState = CONNECTING | OPEN | CLOSING | CLOSED

datatype consoleLine =
    WebSocketDisabled
  | WebSocketConnected
  | WebSocketError
  | WebSocketDisconnected
  | ErrorCreatingWebSocket

record Hook =
  wsRef :: "nat option"
  reconnectTimeoutRef :: "nat option"
  isConnecting :: bool
  sockets :: "(string \<times> readyState) list"
  timers :: "(nat \<times> nat) list"
  nextHandle :: nat
  console :: "consoleLine list"

definition initialHook :: Hook where
  "initialHook = \<lparr>wsRef = None, reconnectTimeoutRef = None, isConnecting = False, sockets = [],
     timers = [], nextHandle = 1, console = []\<rparr>"

definition readyStateOf :: "Hook \<Rightarrow> nat \<Rightarrow> readyState option" where
  "readyStateOf h i = (if i < length (sockets h) then Some (snd (sockets h ! i)) else None)"

definition setReadyState :: "Hook \<Rightarrow> nat \<Rightarrow> readyState \<Rightarrow> Hook" where
  "setReadyState h i r =
     (if i < length (sockets h) then h\<lparr>sockets := (sockets h)[i := (fst (sockets h ! i), r)]\<rparr>
      else h)"

definition scheduleReconnect :: "Hook \<Rightarrow> Hook" where
  "scheduleReconnect h =
     h\<lparr>reconnectTimeoutRef := Some (nextHandle h),
       timers := timers h @ [(nextHandle h, RECONNECT_DELAY)],
       nextHandle := Suc (nextHandle h)\<rparr>"

definition clearReconnect :: "Hook \<Rightarrow> Hook" where
  "clearReconnect h =
     (case reconnectTimeoutRef h of
        None \<Rightarrow> h
      | Some t \<Rightarrow> h\<lparr>timers := filter (\<lambda>p. fst p \<noteq> t) (timers h)\<rparr>)"

definition wsOpen :: "Hook \<Rightarrow> bool" where
  "wsOpen h = (case wsRef h of None \<Rightarrow> False | Some i \<Rightarrow> readyStateOf h i = Some OPEN)"

definition connect :: "Env \<Rightarrow> Hook \<Rightarrow> Hook" where
  "connect env h =
     (if isApiHttp env \<and> isPageHttps env then h\<lparr>console := console h @ [WebSocketDisabled]\<rparr>
      else if isConnecting h \<or> wsOpen h then h
      else if constructorThrows env then
        scheduleReconnect
          (h\<lparr>isConnecting := False, console := console h @ [ErrorCreatingWebSocket]\<rparr>)
      else h\<lparr>isConnecting := True,
             sockets := sockets h @ [(getWebSocketURL env, CONNECTING)],
             wsRef := Some (length (sockets h))\<rparr>)"

text \<open>
  The three handlers that \<open>connect\<close> attaches to the socket, and the cleanup of the effect.
\<close>

definition onopen :: "Hook \<Rightarrow> Hook" where
  "onopen h = clearReconnect (h\<lparr>console := console h @ [WebSocketConnected], isConnecting := False\<rparr>)"

definition onerror :: "Hook \<Rightarrow> Hook" where
  "onerror h = h\<lparr>console := console h @ [WebSocketError], isConnecting := False\<rparr>"

definition onclose :: "Hook \<Rightarrow> Hook" where
  "onclose h =
     scheduleReconnect
       (h\<lparr>console := console h @ [WebSocketDisconnected], isConnecting := False, wsRef := None\<rparr>)"

definition cleanup :: "Hook \<Rightarrow> Hook" where
  "cleanup h =
     (let h1 = clearReconnect h
      in case wsRef h1 of
           None \<Rightarrow> h1
         | Some i \<Rightarrow>
             (if readyStateOf h1 i = Some CLOSED then h1 else setReadyState h1 i CLOSING)
               \<lparr>wsRef := None\<rparr>)"

text \<open>
  What can happen to a mounted hook: the effect runs \<open>connect\<close>, the effect is cleaned
  up, a pending timeout fires, or a socket that is not yet closed opens, errors or closes.
  An event that is not possible in the state leaves it unchanged.
\<close>

datatype event =
    Mount
  | Unmount
  | TimerFires nat
  | SocketOpens nat
  | SocketErrors nat
  | SocketCloses nat

fun step :: "Env \<Rightarrow> Hook \<Rightarrow> event \<Rightarrow> Hook" where
  "step env h Mount = connect env h"
| "step env h Unmount = cleanup h"
| "step env h (TimerFires t) =
     (if t \<in> fst ` set (timers h)
      then connect env (h\<lparr>timers := filter (\<lambda>p. fst p \<noteq> t) (timers h)\<rparr>)
      else h)"
| "step env h (SocketOpens i) =
     (if readyStateOf h i = Some CONNECTING then onopen (setReadyState h i OPEN) else h)"
| "step env h (SocketErrors i) =
     (if readyStateOf h i \<in> {Some CONNECTING, Some OPEN, Some CLOSING} then onerror h else h)"
| "step env h (SocketCloses i) =
     (if readyStateOf h i \<in> {Some CONNECTING, Some OPEN, Some CLOSING}
      then onclose (setReadyState h i CLOSED) else h)"

section \<open>Sample data\<close>

text \<open>
  Two Questions, a Response, and the values of \<open>new Date(s).getTime()\<close> on their
  timestamps; the theorems below are instantiated with them.
\<close>

definition isoMillis :: dateParser where
  "isoMillis = map_of
     [(''2024-01-01T00:00:00Z'', 1704067200000), (''2024-01-02T00:00:00Z'', 1704153600000)]"

definition questionOne :: Question where
  "questionOne = \<lparr>question_id = 1, message = ''first'', status = ''Pending'',
     created_at = ''2024-01-01T00:00:00Z'', guest_name = Some ''guest'', username = None,
     response_count = 3\<rparr>"

definition questionOneEdited :: Question where
  "questionOneEdited = questionOne\<lparr>status := ''Answered''\<rparr>"

definition questionTwo :: Question where
  "questionTwo = \<lparr>question_id = 2, message = ''second'', status = ''Escalated'',
     created_at = ''2024-01-02T00:00:00Z'', guest_name = None, username = Some ''admin'',
     response_count = 0\<rparr>"

definition responseNine :: Response where
  "responseNine = \<lparr>response_id = 9, question_id_r = 1, message_r = ''reply'',
     created_at_r = ''2024-01-02T00:00:00Z'', guest_name_r = None, username_r = Some ''admin''\<rparr>"

definition bothQuestions :: QuestionsState where
  "bothQuestions = initialState\<lparr>questions := [questionTwo, questionOne]\<rparr>"

definition questionAtLimit :: Question where
  "questionAtLimit = questionOne\<lparr>response_count := 9007199254740992\<rparr>"

definition pingMessage :: json where
  "pingMessage = JObj [(''type'', JStr ''ping'')]"

definition newResponseMessage :: json where
  "newResponseMessage = JObj [(''type'', JStr ''new_response''),
     (''data'', JObj [(''response_id'', JNum 9), (''question_id'', JNum 1),
        (''message'', JStr ''reply''), (''created_at'', JStr ''2024-01-02T00:00:00Z''),
        (''guest_name'', JNull), (''username'', JStr ''admin'')])]"

definition insecureEnv :: Env where
  "insecureEnv = \<lparr>NEXT_PUBLIC_API_URL = Some ''http://api.example.com'',
     locationProtocol = Some ''https:'', constructorThrows = False\<rparr>"

section \<open>Predicates of the properties\<close>

text \<open>
  A Question of the data model: its status is one of the three of the priority table and
  its timestamp is a valid date.
\<close>

definition wellFormed :: "dateParser \<Rightarrow> Question \<Rightarrow> bool" where
  "wellFormed getTime q =
     (statusPriority (status q) \<noteq> None \<and> getTime (created_at q) \<noteq> None)"

text \<open>
  \<open>a\<close> may stand directly before \<open>b\<close>: the priority of \<open>a\<close> is at most that of \<open>b\<close>,
  and with equal priorities \<open>a\<close> is at least as new as \<open>b\<close>.
\<close>

definition inOrder :: "dateParser \<Rightarrow> Question \<Rightarrow> Question \<Rightarrow> bool" where
  "inOrder getTime a b =
     (case (statusPriority (status a), statusPriority (status b),
            getTime (created_at a), getTime (created_at b)) of
        (Some pa, Some pb, Some ta, Some tb) \<Rightarrow> pa \<le> pb \<and> (pa = pb \<longrightarrow> tb \<le> ta)
      | _ \<Rightarrow> False)"

text \<open>
  The key that the comparator orders a Question of the data model by: priority first,
  then the negated timestamp, compared lexicographically.
\<close>

definition sortKey :: "dateParser \<Rightarrow> Question \<Rightarrow> int \<times> int" where
  "sortKey getTime q =
     (case (statusPriority (status q), getTime (created_at q)) of
        (Some p, Some t) \<Rightarrow> (p, - t)
      | _ \<Rightarrow> (0, 0))"

text \<open>
  The responses collection is scoped to the selected Question: every Response held
  carries the identifier of the selected Question (nothing is asked when none is selected).
\<close>

definition scoped :: "QuestionsState \<Rightarrow> bool" where
  "scoped state =
     (case selectedQuestion state of
        None \<Rightarrow> True
      | Some sel \<Rightarrow> list_all (\<lambda>r. question_id_r r = question_id sel) (responses state))"

text \<open>The discriminators that the \<open>switch\<close> of the router has a case for.\<close>

definition knownTypes :: "json option set" where
  "knownTypes =
     {Some (JStr ''new_question''), Some (JStr ''question_updated''), Some (JStr ''new_response'')}"

text \<open>No socket was ever created, no timeout is pending, no attempt is under way.\<close>

definition idle :: "Hook \<Rightarrow> bool" where
  "idle h = (wsRef h = None \<and> sockets h = [] \<and> timers h = [] \<and> \<not> isConnecting h)"

section \<open>Lemmas on the addition of numbers\<close>

lemma bitLength_zero: "bitLength 0 = 0"
  by (simp add: bitLength.simps [of 0])

lemma bitLength_one: "bitLength (Suc 0) = Suc 0"
  by (simp add: bitLength.simps [of "Suc 0"] bitLength_zero)

lemma bitLength_Bit0: "bitLength (numeral (Num.Bit0 k)) = Suc (bitLength (numeral k))"
  by (subst bitLength.simps) simp

lemma bitLength_Bit1: "bitLength (numeral (Num.Bit1 k)) = Suc (bitLength (numeral k))"
  by (subst bitLength.simps) simp

lemma bitLength_One: "bitLength (numeral Num.One) = Suc 0"
  by (simp add: bitLength_one)

lemmas bitLength_numeral = bitLength_Bit0 bitLength_Bit1 bitLength_One bitLength_one Let_def

lemma jsAdd_safe: "isSafeInteger n \<Longrightarrow> jsAdd n 1 = n + 1"
  by (auto simp: jsAdd_def roundToDouble_def isSafeInteger_def)

text \<open>
  From \<open>2^53\<close> on the sum with 1 is no double and is rounded: \<open>2^53 + 1\<close> gives
  \<open>2^53\<close>, \<open>2^53 + 2 + 1\<close> gives \<open>2^53 + 4\<close>, and \<open>- 2^53 + 1\<close> is exact.
\<close>

lemma jsAdd_rounds:
  "jsAdd 9007199254740992 1 = 9007199254740992"
  "jsAdd 9007199254740994 1 = 9007199254740996"
  "jsAdd 18014398509481984 1 = 18014398509481984"
  "jsAdd (- 9007199254740992) 1 = - 9007199254740991"
  "jsAdd (- 9007199254740994) 1 = - 9007199254740992"
  by (simp_all add: jsAdd_def roundToDouble_def bitLength_numeral)

lemma bitLength_lower: "0 < n \<Longrightarrow> 2 ^ (bitLength n - 1) \<le> n"
proof (induction n rule: bitLength.induct)
  case (1 n)
  show ?case
  proof (cases "n div 2 = 0")
    case True
    with 1 show ?thesis
      by (simp add: bitLength.simps [of n] bitLength.simps [of 0])
  next
    case False
    then have pos: "0 < n div 2"
      by simp
    with 1 have ih: "2 ^ (bitLength (n div 2) - 1) \<le> n div 2"
      by simp
    have bl: "0 < bitLength (n div 2)"
      using pos by (simp add: bitLength.simps [of "n div 2"])
    have "bitLength n - 1 = Suc (bitLength (n div 2) - 1)"
      using 1(2) bl by (simp add: bitLength.simps [of n])
    then have "(2::nat) ^ (bitLength n - 1) = 2 * 2 ^ (bitLength (n div 2) - 1)"
      by simp
    also have "\<dots> \<le> 2 * (n div 2)"
      using ih by simp
    also have "\<dots> \<le> n"
      by simp
    finally show ?thesis .
  qed
qed

lemma roundToDouble_sign:
  "(0 < roundToDouble n \<longleftrightarrow> 0 < n) \<and> (roundToDouble n = 0 \<longleftrightarrow> n = 0)"
proof (cases "\<bar>n\<bar> \<le> 2 ^ 53")
  case True
  then show ?thesis
    by (simp add: roundToDouble_def)
next
  case False
  define u :: int where "u = 2 ^ (bitLength (nat \<bar>n\<bar>) - 53)"
  define q where "q = \<bar>n\<bar> div u"
  define r where "r = \<bar>n\<bar> mod u"
  define m where "m = (if 2 * r < u \<or> (2 * r = u \<and> even q) then q else q + 1) * u"
  have npos: "0 < nat \<bar>n\<bar>"
    using False by auto
  have upos: "0 < u"
    by (simp add: u_def)
  have "(2::nat) ^ (bitLength (nat \<bar>n\<bar>) - 53) \<le> 2 ^ (bitLength (nat \<bar>n\<bar>) - 1)"
    by (rule power_increasing) auto
  also have "\<dots> \<le> nat \<bar>n\<bar>"
    using bitLength_lower [OF npos] .
  finally have "int (2 ^ (bitLength (nat \<bar>n\<bar>) - 53)) \<le> int (nat \<bar>n\<bar>)"
    by simp
  then have "u \<le> \<bar>n\<bar>"
    by (simp add: u_def)
  then have "1 \<le> q"
    using upos unfolding q_def
    by (metis div_by_1 div_self less_numeral_extra(3) zdiv_mono1 zero_less_one)
  then have "0 < m"
    using upos by (simp add: m_def)
  moreover have "roundToDouble n = (if n < 0 then - m else m)"
    using False by (simp add: roundToDouble_def Let_def m_def q_def r_def u_def)
  ultimately show ?thesis
    using False by auto
qed

section \<open>Lemmas on sorting\<close>

lemma mset_insertSorted: "mset (insertSorted cmp x ys) = add_mset x (mset ys)"
  by (induction ys) auto

lemma mset_arraySort: "mset (arraySort cmp xs) = mset xs"
  by (induction xs) (auto simp: mset_insertSorted)

lemma set_arraySort: "set (arraySort cmp xs) = set xs"
  using mset_arraySort [of cmp xs] by (metis set_mset_mset)

lemma mset_sortQuestions: "mset (sortQuestions getTime qs) = mset qs"
  by (simp add: sortQuestions_def mset_arraySort)

lemma inOrder_total:
  assumes "wellFormed tm x" "wellFormed tm y"
  shows "positive (compareQuestions tm x y) \<Longrightarrow> inOrder tm y x"
    and "\<not> positive (compareQuestions tm x y) \<Longrightarrow> inOrder tm x y"
  using assms
  by (auto simp: wellFormed_def inOrder_def compareQuestions_def positive_def Let_def
      split: option.splits if_splits)

lemma inOrder_trans: "inOrder tm a b \<Longrightarrow> inOrder tm b c \<Longrightarrow> inOrder tm a c"
  by (auto simp: inOrder_def split: option.splits)

lemma sorted_insertSorted:
  assumes "sorted_wrt (inOrder tm) ys" "wellFormed tm x" "\<forall>y\<in>set ys. wellFormed tm y"
  shows "sorted_wrt (inOrder tm) (insertSorted (compareQuestions tm) x ys)"
  using assms
proof (induction ys)
  case Nil
  then show ?case by simp
next
  case (Cons y ys)
  show ?case
  proof (cases "positive (compareQuestions tm x y)")
    case True
    then have yx: "inOrder tm y x"
      using Cons.prems inOrder_total(1) by simp
    have "set (insertSorted (compareQuestions tm) x ys) = insert x (set ys)"
      using mset_insertSorted [of "compareQuestions tm" x ys]
      by (metis set_mset_mset set_mset_add_mset_insert)
    with True yx Cons show ?thesis by auto
  next
    case False
    then have xy: "inOrder tm x y"
      using Cons.prems inOrder_total(2) by simp
    then have "\<forall>z\<in>set ys. inOrder tm x z"
      using Cons.prems(1) inOrder_trans by auto
    with False xy Cons.prems show ?thesis by auto
  qed
qed

lemma sorted_sortQuestions:
  "\<forall>q\<in>set qs. wellFormed tm q \<Longrightarrow> sorted_wrt (inOrder tm) (sortQuestions tm qs)"
  unfolding sortQuestions_def
  by (induction qs) (auto simp: sorted_insertSorted set_arraySort)

text \<open>
  On Questions of the data model the comparator is consistent, and \<open>sortQuestions\<close> is
  the stable sort by \<open>sortKey\<close>: the list that every stable sorting algorithm returns.
\<close>

lemma positive_sortKey:
  assumes "wellFormed tm x" "wellFormed tm y"
  shows "positive (compareQuestions tm x y) \<longleftrightarrow> \<not> sortKey tm x \<le> sortKey tm y"
  using assms
  by (auto simp: wellFormed_def compareQuestions_def positive_def sortKey_def Let_def
      less_eq_prod_def split: option.splits)

lemma insertSorted_insort_key:
  assumes "wellFormed tm x" "\<forall>y\<in>set ys. wellFormed tm y"
  shows "insertSorted (compareQuestions tm) x ys = insort_key (sortKey tm) x ys"
  using assms by (induction ys) (simp_all add: positive_sortKey)

lemma sortQuestions_sort_key:
  "\<forall>q\<in>set qs. wellFormed tm q \<Longrightarrow> sortQuestions tm qs = sort_key (sortKey tm) qs"
  unfolding sortQuestions_def
  by (induction qs) (simp_all add: insertSorted_insort_key set_arraySort)

lemma sortQuestions_sample:
  "sortQuestions isoMillis [questionOne, questionTwo] = [questionTwo, questionOne]"
  by (simp add: sortQuestions_def compareQuestions_def statusPriority_def positive_def
      isoMillis_def questionOne_def questionTwo_def)

lemma sortQuestions_single: "sortQuestions getTime [q] = [q]"
  by (simp add: sortQuestions_def)

lemma wellFormed_sample: "wellFormed isoMillis questionOne" "wellFormed isoMillis questionTwo"
  by (simp_all add: wellFormed_def statusPriority_def isoMillis_def questionOne_def
      questionTwo_def)

section \<open>Lemmas on the reducers\<close>

lemma findIndex_None: "findIndex p xs = None \<longleftrightarrow> (\<forall>x\<in>set xs. \<not> p x)"
  by (induction xs) auto

lemma bumpFirst_absent: "\<forall>q\<in>set qs. question_id q \<noteq> i \<Longrightarrow> bumpFirst i qs = qs"
  by (induction qs) auto

lemma bumpFirst_present:
  assumes "\<exists>q\<in>set qs. question_id q = i"
    and "\<forall>q\<in>set qs. question_id q = i \<longrightarrow> isSafeInteger (response_count q)"
  shows "\<exists>k<length qs. question_id (qs ! k) = i \<and> (\<forall>j<k. question_id (qs ! j) \<noteq> i) \<and>
     bumpFirst i qs = qs[k := (qs ! k)\<lparr>response_count := response_count (qs ! k) + 1\<rparr>]"
  using assms
proof (induction qs)
  case Nil
  then show ?case by simp
next
  case (Cons q qs)
  show ?case
  proof (cases "question_id q = i")
    case True
    with Cons.prems(2) have "jsAdd (response_count q) 1 = response_count q + 1"
      by (simp add: jsAdd_safe)
    with True show ?thesis by (intro exI [of _ 0]) simp
  next
    case False
    with Cons.prems have "\<exists>q\<in>set qs. question_id q = i"
      and "\<forall>q\<in>set qs. question_id q = i \<longrightarrow> isSafeInteger (response_count q)"
      by simp_all
    from Cons.IH [OF this] obtain k where k: "k < length qs" "question_id (qs ! k) = i"
      "\<forall>j<k. question_id (qs ! j) \<noteq> i"
      "bumpFirst i qs = qs[k := (qs ! k)\<lparr>response_count := response_count (qs ! k) + 1\<rparr>]"
      by blast
    have "\<forall>j<Suc k. question_id ((q # qs) ! j) \<noteq> i"
      using False k(3) by (auto simp: nth_Cons split: nat.splits)
    with k False show ?thesis by (intro exI [of _ "Suc k"]) simp
  qed
qed

lemma bumpFirst_distinct:
  assumes "distinct (map question_id qs)"
    and "\<forall>q\<in>set qs. question_id q = i \<longrightarrow> isSafeInteger (response_count q)"
  shows "bumpFirst i qs =
     map (\<lambda>q. if question_id q = i then q\<lparr>response_count := response_count q + 1\<rparr> else q) qs"
  using assms
proof (induction qs)
  case Nil
  then show ?case by simp
next
  case (Cons q qs)
  show ?case
  proof (cases "question_id q = i")
    case True
    with Cons.prems(1) have "\<forall>x\<in>set qs. question_id x \<noteq> i"
      by (auto simp: image_iff)
    then have same: "map (\<lambda>q. if question_id q = i
        then q\<lparr>response_count := response_count q + 1\<rparr> else q) qs = qs"
      by (induction qs) auto
    from True Cons.prems(2) have "jsAdd (response_count q) 1 = response_count q + 1"
      by (simp add: jsAdd_safe)
    with True same show ?thesis by simp
  next
    case False
    with Cons show ?thesis by simp
  qed
qed

lemma addResponse_at_limit:
  "questions (addResponse (initialState\<lparr>questions := [questionAtLimit]\<rparr>) responseNine)
     = [questionAtLimit]"
  by (simp add: addResponse_def questionAtLimit_def questionOne_def responseNine_def
      jsAdd_rounds)

lemma scoped_updateQuestion: "scoped state \<Longrightarrow> scoped (updateQuestion getTime state q)"
  by (auto simp: scoped_def updateQuestion_def selectedHasId_def Let_def split: option.splits)

section \<open>Lemmas on the connection manager\<close>

lemma step_idle:
  assumes "isApiHttp env" "isPageHttps env" "idle h"
  shows "idle (step env h ev)"
  using assms
  by (cases ev)
    (auto simp: idle_def connect_def cleanup_def clearReconnect_def readyStateOf_def
      split: option.splits)

lemma run_idle:
  assumes "isApiHttp env" "isPageHttps env"
  shows "idle h \<Longrightarrow> idle (foldl (step env) h evs)"
  by (induction evs arbitrary: h) (simp_all add: step_idle [OF assms])

lemma connect_secure_sample:
  "sockets (connect (insecureEnv\<lparr>locationProtocol := Some ''http:''\<rparr>) initialHook)
     = [(''ws://api.example.com/ws'', CONNECTING)]"
  by (simp add: connect_def isApiHttp_def isPageHttps_def apiUrl_def insecureEnv_def
      startsWith_def initialHook_def wsOpen_def getWebSocketURL_def)

lemma onmessage_new_response:
  "onmessage isoMillis bothQuestions (Some newResponseMessage)
     = Handled (addResponse bothQuestions responseNine) [MessageReceived newResponseMessage]"
  by (simp add: onmessage_def newResponseMessage_def dispatch_def asResponse_def numField_def
      strField_def nullableField_def responseNine_def)

section \<open>Claims\<close>

text \<open>
  C1. After the \<open>fetchQuestions.fulfilled\<close> handler has stored a list of Questions of the
  data model (status among Escalated, Pending, Answered; valid timestamp), every two
  neighbours \<open>a, b\<close> of the stored sequence satisfy \<open>priority a \<le> priority b\<close> under
  Escalated 0, Pending 1, Answered 2, and with equal priorities \<open>a\<close> was created no
  earlier than \<open>b\<close>.
\<close>

theorem applyQuestionList_sorted:
  assumes "\<forall>q\<in>set payload. wellFormed getTime q"
  shows "\<forall>i. Suc i < length (questions (fetchQuestions_fulfilled getTime state payload)) \<longrightarrow>
           inOrder getTime (questions (fetchQuestions_fulfilled getTime state payload) ! i)
                           (questions (fetchQuestions_fulfilled getTime state payload) ! Suc i)"
  using sorted_sortQuestions [OF assms]
  by (simp add: fetchQuestions_fulfilled_def sorted_wrt_iff_nth_less)

theorem applyQuestionList_sorted_witness:
  "wellFormed isoMillis questionOne \<and> wellFormed isoMillis questionTwo \<and>
   questions (fetchQuestions_fulfilled isoMillis initialState [questionOne, questionTwo])
     = [questionTwo, questionOne] \<and>
   inOrder isoMillis questionTwo questionOne"
proof -
  have wf: "\<forall>q\<in>set [questionOne, questionTwo]. wellFormed isoMillis q"
    by (simp add: wellFormed_sample)
  have res: "questions (fetchQuestions_fulfilled isoMillis initialState [questionOne, questionTwo])
     = [questionTwo, questionOne]"
    by (simp add: fetchQuestions_fulfilled_def sortQuestions_sample)
  from applyQuestionList_sorted [OF wf, of initialState] res
  have "inOrder isoMillis questionTwo questionOne"
    by auto
  with wf res show ?thesis by simp
qed

text \<open>
  C2, as amended. \<open>addQuestion\<close> never overwrites: the collection afterwards holds the
  payload together with every entry it held before, so the number of entries with the
  payload's identifier grows by one, also when that identifier was already present.
\<close>

theorem addQuestion_keeps_all:
  "mset (questions (addQuestion getTime state q)) = add_mset q (mset (questions state)) \<and>
   length (filter (\<lambda>x. question_id x = question_id q) (questions (addQuestion getTime state q)))
     = Suc (length (filter (\<lambda>x. question_id x = question_id q) (questions state)))"
proof -
  let ?P = "\<lambda>x. question_id x = question_id q"
  have len: "length (filter ?P xs) = size (filter_mset ?P (mset xs))" for xs
    by (metis mset_filter size_mset)
  have m: "mset (questions (addQuestion getTime state q)) = add_mset q (mset (questions state))"
    by (simp add: addQuestion_def mset_sortQuestions)
  show ?thesis
    unfolding len m by simp
qed

theorem addQuestion_keeps_all_witness:
  "length (filter (\<lambda>x. question_id x = question_id questionOneEdited)
     (questions (addQuestion isoMillis bothQuestions questionOneEdited))) = 2"
proof -
  have "length (filter (\<lambda>x. question_id x = question_id questionOneEdited)
      (questions bothQuestions)) = 1"
    by (simp add: bothQuestions_def questionOne_def questionTwo_def questionOneEdited_def)
  with addQuestion_keeps_all [of isoMillis bothQuestions questionOneEdited]
  show ?thesis by simp
qed

theorem addQuestion_duplicate_counterexample:
  "questions (addQuestion isoMillis (addQuestion isoMillis initialState questionOne)
      questionOneEdited) = [questionOne, questionOneEdited] \<and>
   question_id questionOne = question_id questionOneEdited \<and>
   questionOne \<noteq> questionOneEdited"
  by (simp add: addQuestion_def initialState_def sortQuestions_def compareQuestions_def
      statusPriority_def positive_def isoMillis_def questionOne_def questionOneEdited_def)

text \<open>
  C3. \<open>addResponse\<close> appends the Response. When no Question of the collection has the
  Response's \<open>question_id\<close>, the collection is unchanged. When one has, and the count
  it holds is a safe integer (magnitude below \<open>2^53\<close>, as every count of Responses is),
  the first such Question has its \<open>response_count\<close> raised by exactly 1 and every other
  entry is unchanged; with unique identifiers that is the Question with the identifier.
\<close>

theorem addResponse_counter:
  "responses (addResponse state r) = responses state @ [r] \<and>
   ((\<forall>q\<in>set (questions state). question_id q \<noteq> question_id_r r) \<longrightarrow>
      questions (addResponse state r) = questions state) \<and>
   ((\<forall>q\<in>set (questions state).
        question_id q = question_id_r r \<longrightarrow> isSafeInteger (response_count q)) \<longrightarrow>
      ((\<exists>q\<in>set (questions state). question_id q = question_id_r r) \<longrightarrow>
         (\<exists>k<length (questions state).
            question_id (questions state ! k) = question_id_r r \<and>
            (\<forall>j<k. question_id (questions state ! j) \<noteq> question_id_r r) \<and>
            questions (addResponse state r) =
              (questions state)[k := (questions state ! k)
                 \<lparr>response_count := response_count (questions state ! k) + 1\<rparr>])) \<and>
      (distinct (map question_id (questions state)) \<longrightarrow>
         questions (addResponse state r) =
           map (\<lambda>q. if question_id q = question_id_r r
                     then q\<lparr>response_count := response_count q + 1\<rparr> else q)
             (questions state)))"
  using bumpFirst_absent [of "questions state" "question_id_r r"]
    bumpFirst_present [of "questions state" "question_id_r r"]
    bumpFirst_distinct [of "questions state" "question_id_r r"]
  by (simp add: addResponse_def)

theorem addResponse_counter_witness:
  "isSafeInteger (response_count questionOne) \<and>
   distinct (map question_id (questions bothQuestions)) \<and>
   questions (addResponse bothQuestions responseNine)
     = [questionTwo, questionOne\<lparr>response_count := 4\<rparr>] \<and>
   (\<exists>k<length (questions bothQuestions).
      question_id (questions bothQuestions ! k) = question_id_r responseNine \<and>
      (\<forall>j<k. question_id (questions bothQuestions ! j) \<noteq> question_id_r responseNine) \<and>
      questions (addResponse bothQuestions responseNine) =
        (questions bothQuestions)[k := (questions bothQuestions ! k)
           \<lparr>response_count := response_count (questions bothQuestions ! k) + 1\<rparr>]) \<and>
   questions (addResponse initialState responseNine) = questions initialState"
proof -
  note t = addResponse_counter [of bothQuestions responseNine]
  have s1: "isSafeInteger (response_count questionOne)"
    by (simp add: isSafeInteger_def questionOne_def)
  have s: "\<forall>q\<in>set (questions bothQuestions).
      question_id q = question_id_r responseNine \<longrightarrow> isSafeInteger (response_count q)"
    by (simp add: bothQuestions_def questionOne_def questionTwo_def isSafeInteger_def)
  have d: "distinct (map question_id (questions bothQuestions))"
    by (simp add: bothQuestions_def questionOne_def questionTwo_def)
  have p: "\<exists>q\<in>set (questions bothQuestions). question_id q = question_id_r responseNine"
    by (simp add: bothQuestions_def questionOne_def responseNine_def)
  have e: "\<forall>q\<in>set (questions initialState). question_id q \<noteq> question_id_r responseNine"
    by (simp add: initialState_def)
  from s d t
  have "questions (addResponse bothQuestions responseNine) =
        map (\<lambda>q. if question_id q = question_id_r responseNine
                  then q\<lparr>response_count := response_count q + 1\<rparr> else q)
          (questions bothQuestions)"
    by blast
  then have one: "questions (addResponse bothQuestions responseNine)
     = [questionTwo, questionOne\<lparr>response_count := 4\<rparr>]"
    by (simp add: bothQuestions_def questionOne_def questionTwo_def responseNine_def)
  from s p t
  have first: "\<exists>k<length (questions bothQuestions).
      question_id (questions bothQuestions ! k) = question_id_r responseNine \<and>
      (\<forall>j<k. question_id (questions bothQuestions ! j) \<noteq> question_id_r responseNine) \<and>
      questions (addResponse bothQuestions responseNine) =
        (questions bothQuestions)[k := (questions bothQuestions ! k)
           \<lparr>response_count := response_count (questions bothQuestions ! k) + 1\<rparr>]"
    by blast
  from e addResponse_counter [of initialState responseNine]
  have none: "questions (addResponse initialState responseNine) = questions initialState"
    by blast
  from s1 d one first none show ?thesis
    by blast
qed

text \<open>
  C4. When a Question is selected and the payload of \<open>updateQuestion\<close> carries its
  identifier, the selected-question reference afterwards equals the payload.
\<close>

theorem updateQuestion_refreshes_selected:
  assumes "selectedQuestion state = Some sel" and "question_id sel = question_id q"
  shows "selectedQuestion (updateQuestion getTime state q) = Some q"
  using assms
  by (simp add: updateQuestion_def selectedHasId_def Let_def split: option.splits)

theorem updateQuestion_refreshes_selected_witness:
  "selectedQuestion (setSelectedQuestion bothQuestions (Some questionOne)) = Some questionOne \<and>
   question_id questionOne = question_id questionOneEdited \<and>
   selectedQuestion
     (updateQuestion isoMillis (setSelectedQuestion bothQuestions (Some questionOne))
        questionOneEdited) = Some questionOneEdited"
proof -
  have a: "selectedQuestion (setSelectedQuestion bothQuestions (Some questionOne))
      = Some questionOne"
    by (simp add: setSelectedQuestion_def)
  have b: "question_id questionOne = question_id questionOneEdited"
    by (simp add: questionOneEdited_def)
  from updateQuestion_refreshes_selected [OF a b, of isoMillis] a b
  show ?thesis by simp
qed

text \<open>
  C5, as amended. When no Question of the collection has the payload's identifier,
  \<open>updateQuestion\<close> leaves \<open>questions\<close>, \<open>responses\<close>, \<open>loading\<close> and \<open>error\<close>
  unchanged and returns normally; the selected-question reference is unchanged unless
  the selected Question has the payload's identifier, and then it becomes the payload.
\<close>

theorem updateQuestion_absent:
  assumes "\<forall>x\<in>set (questions state). question_id x \<noteq> question_id q"
  shows "updateQuestion getTime state q =
           (if selectedHasId state (question_id q) then state\<lparr>selectedQuestion := Some q\<rparr>
            else state)"
proof -
  have "findIndex (\<lambda>x. question_id x = question_id q) (questions state) = None"
    using assms by (simp add: findIndex_None)
  then show ?thesis by (simp add: updateQuestion_def)
qed

theorem updateQuestion_absent_witness:
  "questions (initialState\<lparr>questions := [questionTwo]\<rparr>) = [questionTwo] \<and>
   question_id questionTwo \<noteq> question_id questionOne \<and>
   updateQuestion isoMillis (initialState\<lparr>questions := [questionTwo]\<rparr>) questionOne
     = initialState\<lparr>questions := [questionTwo]\<rparr> \<and>
   questions (setSelectedQuestion initialState (Some questionOne)) = [] \<and>
   updateQuestion isoMillis (setSelectedQuestion initialState (Some questionOne)) questionOneEdited
     = setSelectedQuestion initialState (Some questionOneEdited)"
proof -
  let ?s = "initialState\<lparr>questions := [questionTwo]\<rparr>"
  let ?t = "setSelectedQuestion initialState (Some questionOne)"
  have a: "\<forall>x\<in>set (questions ?s). question_id x \<noteq> question_id questionOne"
    by (simp add: questionOne_def questionTwo_def)
  have b: "\<not> selectedHasId ?s (question_id questionOne)"
    by (simp add: selectedHasId_def initialState_def)
  from updateQuestion_absent [OF a, of isoMillis] b
  have one: "updateQuestion isoMillis ?s questionOne = ?s"
    by simp
  have c: "\<forall>x\<in>set (questions ?t). question_id x \<noteq> question_id questionOneEdited"
    by (simp add: setSelectedQuestion_def initialState_def)
  have d: "selectedHasId ?t (question_id questionOneEdited)"
    by (simp add: selectedHasId_def setSelectedQuestion_def questionOneEdited_def)
  from updateQuestion_absent [OF c, of isoMillis] d
  have "updateQuestion isoMillis ?t questionOneEdited = ?t\<lparr>selectedQuestion := Some questionOneEdited\<rparr>"
    by simp
  then have two: "updateQuestion isoMillis ?t questionOneEdited
      = setSelectedQuestion initialState (Some questionOneEdited)"
    by (simp add: setSelectedQuestion_def)
  have "questions ?s = [questionTwo]" "question_id questionTwo \<noteq> question_id questionOne"
    "questions ?t = []"
    by (simp_all add: questionOne_def questionTwo_def setSelectedQuestion_def initialState_def)
  with one two show ?thesis
    by blast
qed

theorem updateQuestion_absent_counterexample:
  "questions (setSelectedQuestion initialState (Some questionOne)) = [] \<and>
   updateQuestion isoMillis (setSelectedQuestion initialState (Some questionOne)) questionOneEdited
     \<noteq> setSelectedQuestion initialState (Some questionOne)"
  by (simp add: updateQuestion_def setSelectedQuestion_def initialState_def selectedHasId_def
      questionOne_def questionOneEdited_def)

text \<open>
  C6. The \<open>fulfilled\<close> cases of \<open>createQuestion\<close> and \<open>createResponse\<close> set \<open>loading\<close>
  to false and change nothing else: the created entity, their payload, is put neither
  into \<open>questions\<close> nor into \<open>responses\<close>.
\<close>

theorem creation_fulfilled_only_clears_loading:
  "questionsReducer getTime state (CreateQuestionFulfilled q) = state\<lparr>loading := False\<rparr> \<and>
   questionsReducer getTime state (CreateResponseFulfilled r) = state\<lparr>loading := False\<rparr> \<and>
   questions (questionsReducer getTime state (CreateQuestionFulfilled q)) = questions state \<and>
   responses (questionsReducer getTime state (CreateResponseFulfilled r)) = responses state"
  by (simp add: createQuestion_fulfilled_def createResponse_fulfilled_def)

theorem creation_fulfilled_only_clears_loading_witness:
  "questions (questionsReducer isoMillis (pending initialState) (CreateQuestionFulfilled questionOne))
     = [] \<and>
   responses (questionsReducer isoMillis (pending initialState) (CreateResponseFulfilled responseNine))
     = [] \<and>
   questionsReducer isoMillis (pending initialState) (CreateQuestionFulfilled questionOne)
     = initialState"
proof -
  have "(pending initialState)\<lparr>loading := False\<rparr> = initialState"
    "questions (pending initialState) = []" "responses (pending initialState) = []"
    "questions initialState = []" "responses initialState = []"
    by (simp_all add: pending_def initialState_def)
  with creation_fulfilled_only_clears_loading
    [of isoMillis "pending initialState" questionOne responseNine]
  show ?thesis by simp
qed

text \<open>
  C7. A payload that \<open>JSON.parse\<close> rejects, a parsed value whose \<open>type\<close> cannot be read,
  and a parsed value whose \<open>type\<close> is none of \<open>new_question\<close>, \<open>question_updated\<close>,
  \<open>new_response\<close> leave the Store as it is: the handler returns normally with the Store
  unchanged, having logged the payload or the error.
\<close>

theorem unknown_or_malformed_dropped:
  "onmessage getTime state None = Handled state [ParsingError SyntaxError] \<and>
   (\<forall>e. getProp msg ''type'' = Inl e \<longrightarrow>
      onmessage getTime state (Some msg)
        = Handled state [MessageReceived msg, ParsingError e]) \<and>
   (\<forall>ty. getProp msg ''type'' = Inr ty \<and> ty \<notin> knownTypes \<longrightarrow>
      onmessage getTime state (Some msg)
        = Handled state [MessageReceived msg, UnknownMessageType ty])"
  by (simp add: onmessage_def knownTypes_def)

theorem unknown_or_malformed_dropped_witness:
  "getProp pingMessage ''type'' = Inr (Some (JStr ''ping'')) \<and>
   Some (JStr ''ping'') \<notin> knownTypes \<and>
   onmessage isoMillis bothQuestions (Some pingMessage)
     = Handled bothQuestions
         [MessageReceived pingMessage, UnknownMessageType (Some (JStr ''ping''))] \<and>
   getProp JNull ''type'' = Inl TypeError \<and>
   onmessage isoMillis bothQuestions (Some JNull)
     = Handled bothQuestions [MessageReceived JNull, ParsingError TypeError]"
proof -
  have a: "getProp pingMessage ''type'' = Inr (Some (JStr ''ping''))"
    by (simp add: pingMessage_def)
  have b: "Some (JStr ''ping'') \<notin> knownTypes"
    by (simp add: knownTypes_def)
  have c: "getProp JNull ''type'' = Inl TypeError"
    by simp
  from a b unknown_or_malformed_dropped [of isoMillis bothQuestions pingMessage]
  have d: "onmessage isoMillis bothQuestions (Some pingMessage)
     = Handled bothQuestions
         [MessageReceived pingMessage, UnknownMessageType (Some (JStr ''ping''))]"
    by blast
  from c unknown_or_malformed_dropped [of isoMillis bothQuestions JNull]
  have "onmessage isoMillis bothQuestions (Some JNull)
     = Handled bothQuestions [MessageReceived JNull, ParsingError TypeError]"
    by blast
  with a b c d show ?thesis by blast
qed

text \<open>
  C8. When the API URL starts with \<open>http://\<close> and the page is served over \<open>https:\<close>,
  every call of \<open>connect\<close> returns with nothing changed but one warning on the console:
  no WebSocket is created and no timeout is set. Hence, whatever happens to the mounted
  hook, no socket and no pending reconnect ever exist.
\<close>

theorem insecure_origin_skips_channel:
  assumes "isApiHttp env" and "isPageHttps env"
  shows "connect env h = h\<lparr>console := console h @ [WebSocketDisabled]\<rparr> \<and>
         sockets (foldl (step env) initialHook evs) = [] \<and>
         timers (foldl (step env) initialHook evs) = [] \<and>
         wsRef (foldl (step env) initialHook evs) = None"
proof -
  have "idle initialHook"
    by (simp add: idle_def initialHook_def)
  from run_idle [OF assms this, of evs] show ?thesis
    using assms by (simp add: connect_def idle_def)
qed

theorem insecure_origin_skips_channel_witness:
  "isApiHttp insecureEnv \<and> isPageHttps insecureEnv \<and>
   connect insecureEnv initialHook = initialHook\<lparr>console := [WebSocketDisabled]\<rparr> \<and>
   sockets (foldl (step insecureEnv) initialHook [Mount, TimerFires 1, Mount]) = [] \<and>
   timers (foldl (step insecureEnv) initialHook [Mount, TimerFires 1, Mount]) = []"
proof -
  have a: "isApiHttp insecureEnv"
    by (simp add: isApiHttp_def apiUrl_def insecureEnv_def startsWith_def)
  have b: "isPageHttps insecureEnv"
    by (simp add: isPageHttps_def insecureEnv_def)
  note t = insecure_origin_skips_channel [OF a b, of initialHook "[Mount, TimerFires 1, Mount]"]
  have c: "console initialHook @ [WebSocketDisabled] = [WebSocketDisabled]"
    by (simp add: initialHook_def)
  from t have t1: "connect insecureEnv initialHook = initialHook\<lparr>console := [WebSocketDisabled]\<rparr>"
    unfolding c by (rule conjunct1)
  from t have t2: "sockets (foldl (step insecureEnv) initialHook [Mount, TimerFires 1, Mount]) = []"
    and t3: "timers (foldl (step insecureEnv) initialHook [Mount, TimerFires 1, Mount]) = []"
    by blast+
  from a b t1 t2 t3 show ?thesis by blast
qed

text \<open>
  C9, as amended. The Store does not keep the responses collection scoped to the
  selected Question. After \<open>addResponse\<close> the scoping holds exactly when it held before
  and the Response carries the selected identifier (or nothing is selected); after
  \<open>setSelectedQuestion\<close> and after \<open>fetchResponses.fulfilled\<close> it holds exactly when the
  Responses then held carry the identifier then selected. Every other reducer preserves it.
\<close>

theorem responses_scoping:
  "scoped (addResponse state r) =
     (scoped state \<and> (selectedQuestion state = None \<or> selectedHasId state (question_id_r r))) \<and>
   scoped (setSelectedQuestion state sel) =
     (case sel of None \<Rightarrow> True
      | Some q \<Rightarrow> list_all (\<lambda>x. question_id_r x = question_id q) (responses state)) \<and>
   scoped (fetchResponses_fulfilled state rs) =
     (case selectedQuestion state of None \<Rightarrow> True
      | Some q \<Rightarrow> list_all (\<lambda>x. question_id_r x = question_id q) rs) \<and>
   (scoped state \<longrightarrow>
      scoped (addQuestion getTime state q) \<and> scoped (updateQuestion getTime state q) \<and>
      scoped (clearError state) \<and> scoped (pending state) \<and> scoped (rejected state msg) \<and>
      scoped (fetchQuestions_fulfilled getTime state qs) \<and>
      scoped (createQuestion_fulfilled state q) \<and>
      scoped (updateQuestionStatus_fulfilled state q) \<and>
      scoped (createResponse_fulfilled state r))"
  using scoped_updateQuestion [of state getTime q]
  by (auto simp: scoped_def addResponse_def setSelectedQuestion_def fetchResponses_fulfilled_def
      addQuestion_def clearError_def pending_def rejected_def fetchQuestions_fulfilled_def
      createQuestion_fulfilled_def updateQuestionStatus_fulfilled_def
      createResponse_fulfilled_def selectedHasId_def split: option.splits)

theorem responses_scoping_witness:
  "scoped (setSelectedQuestion bothQuestions (Some questionOne)) \<and>
   scoped (addResponse (setSelectedQuestion bothQuestions (Some questionOne)) responseNine) \<and>
   scoped (updateQuestion isoMillis (setSelectedQuestion bothQuestions (Some questionOne))
             questionOneEdited)"
proof -
  let ?s = "setSelectedQuestion bothQuestions (Some questionOne)"
  have a: "scoped ?s"
    by (simp add: scoped_def setSelectedQuestion_def bothQuestions_def initialState_def)
  have b: "selectedHasId ?s (question_id_r responseNine)"
    by (simp add: selectedHasId_def setSelectedQuestion_def questionOne_def responseNine_def)
  note t = responses_scoping [of ?s responseNine _ _ isoMillis questionOneEdited]
  from t a b have c: "scoped (addResponse ?s responseNine)"
    by blast
  from t a have "scoped (updateQuestion isoMillis ?s questionOneEdited)"
    by blast
  with a c show ?thesis by blast
qed

theorem responses_scoping_counterexample:
  "scoped (foldl (questionsReducer isoMillis) initialState
        [SetSelectedQuestion (Some questionTwo)]) \<and>
   \<not> scoped (foldl (questionsReducer isoMillis) initialState
        [SetSelectedQuestion (Some questionTwo), AddResponse responseNine]) \<and>
   scoped (foldl (questionsReducer isoMillis) initialState
        [SetSelectedQuestion (Some questionOne), AddResponse responseNine]) \<and>
   \<not> scoped (foldl (questionsReducer isoMillis) initialState
        [SetSelectedQuestion (Some questionOne), AddResponse responseNine,
         SetSelectedQuestion (Some questionTwo)])"
  by (simp add: scoped_def setSelectedQuestion_def addResponse_def initialState_def
      questionOne_def questionTwo_def responseNine_def)

text \<open>
  C10. The \<open>fetchQuestions.fulfilled\<close> handler stores the sorted payload in \<open>questions\<close>
  and sets \<open>loading\<close> to false; \<open>selectedQuestion\<close>, \<open>responses\<close> and \<open>error\<close> stay as
  they were. No action but \<open>updateQuestion\<close> and the setter \<open>setSelectedQuestion\<close>
  writes the selected-question reference, so after a refetch it can differ from the
  entry of the list that carries its identifier.
\<close>

theorem fetchQuestions_fulfilled_frame:
  "questions (fetchQuestions_fulfilled getTime state payload) = sortQuestions getTime payload \<and>
   loading (fetchQuestions_fulfilled getTime state payload) = False \<and>
   selectedQuestion (fetchQuestions_fulfilled getTime state payload) = selectedQuestion state \<and>
   responses (fetchQuestions_fulfilled getTime state payload) = responses state \<and>
   error (fetchQuestions_fulfilled getTime state payload) = error state \<and>
   ((\<forall>x. a \<noteq> UpdateQuestion x) \<and> (\<forall>x. a \<noteq> SetSelectedQuestion x) \<longrightarrow>
      selectedQuestion (questionsReducer getTime state a) = selectedQuestion state) \<and>
   (\<exists>s p sel x. selectedQuestion (fetchQuestions_fulfilled getTime s p) = Some sel \<and>
      x \<in> set (questions (fetchQuestions_fulfilled getTime s p)) \<and>
      question_id x = question_id sel \<and> x \<noteq> sel)"
proof -
  have frame: "(\<forall>x. a \<noteq> UpdateQuestion x) \<and> (\<forall>x. a \<noteq> SetSelectedQuestion x) \<longrightarrow>
      selectedQuestion (questionsReducer getTime state a) = selectedQuestion state"
    by (cases a) (simp_all add: fetchQuestions_fulfilled_def addQuestion_def addResponse_def
        clearError_def pending_def rejected_def createQuestion_fulfilled_def
        updateQuestionStatus_fulfilled_def createResponse_fulfilled_def
        fetchResponses_fulfilled_def)
  let ?s = "setSelectedQuestion initialState (Some questionOne)"
  have "selectedQuestion (fetchQuestions_fulfilled getTime ?s [questionOneEdited])
          = Some questionOne \<and>
        questionOneEdited \<in> set (questions (fetchQuestions_fulfilled getTime ?s [questionOneEdited])) \<and>
        question_id questionOneEdited = question_id questionOne \<and>
        questionOneEdited \<noteq> questionOne"
    by (simp add: fetchQuestions_fulfilled_def setSelectedQuestion_def sortQuestions_single
        questionOneEdited_def questionOne_def)
  then have diverge: "\<exists>s p sel x.
      selectedQuestion (fetchQuestions_fulfilled getTime s p) = Some sel \<and>
      x \<in> set (questions (fetchQuestions_fulfilled getTime s p)) \<and>
      question_id x = question_id sel \<and> x \<noteq> sel"
    by blast
  from frame diverge show ?thesis
    by (simp add: fetchQuestions_fulfilled_def)
qed

theorem fetchQuestions_fulfilled_frame_witness:
  "selectedQuestion
     (questionsReducer isoMillis (setSelectedQuestion initialState (Some questionOne))
        (FetchQuestionsFulfilled [questionOneEdited])) = Some questionOne \<and>
   questions
     (fetchQuestions_fulfilled isoMillis (setSelectedQuestion initialState (Some questionOne))
        [questionOneEdited]) = [questionOneEdited] \<and>
   questionOneEdited \<noteq> questionOne"
proof -
  let ?s = "setSelectedQuestion initialState (Some questionOne)"
  let ?a = "FetchQuestionsFulfilled [questionOneEdited]"
  have a: "(\<forall>x. ?a \<noteq> UpdateQuestion x) \<and> (\<forall>x. ?a \<noteq> SetSelectedQuestion x)"
    by simp
  note t = fetchQuestions_fulfilled_frame [of isoMillis ?s "[questionOneEdited]" ?a]
  from t a have "selectedQuestion (questionsReducer isoMillis ?s ?a) = selectedQuestion ?s"
    by blast
  then have b: "selectedQuestion (questionsReducer isoMillis ?s ?a) = Some questionOne"
    by (simp add: setSelectedQuestion_def)
  from t have "questions (fetchQuestions_fulfilled isoMillis ?s [questionOneEdited])
      = sortQuestions isoMillis [questionOneEdited]"
    by blast
  then have c: "questions (fetchQuestions_fulfilled isoMillis ?s [questionOneEdited])
      = [questionOneEdited]"
    by (simp add: sortQuestions_single)
  have "questionOneEdited \<noteq> questionOne"
    by (simp add: questionOneEdited_def questionOne_def)
  with b c show ?thesis by blast
qed

end
